theory Spec2Isabelle
  imports Complex_Main
begin

section \<open>Values, dictionaries and the object store\<close>

text \<open>
  The module \<^verbatim>\<open>app/processor.py\<close> handles messages of type \<^verbatim>\<open>dict[str, Any]\<close>.
  A dictionary is a finite map from string keys to values; two dictionaries are equal
  in Python when they have the same keys with equal values, whatever the insertion
  order, so a map is the right abstraction. The values are arbitrary Python objects;
  the processor only ever copies them from one dictionary into another, so they are
  modelled by value. The float literal \<^verbatim>\<open>0.85\<close> is kept as the number its decimal
  text denotes: no arithmetic is performed on it anywhere in the module.
\<close>

datatype pyval =
    VNone
  | VBool bool
  | VInt int
  | VFloat real
  | VStr string
  | VList "pyval list"

type_synonym pydict = "string \<rightharpoonup> pyval"

text \<open>
  Dictionaries are mutable heap objects and a variable such as \<^verbatim>\<open>message\<close> holds a
  reference. The store maps every address to the dictionary found there;
  \<open>next_addr\<close> is the first address not yet handed out, so the live objects are those
  below it.
\<close>

type_synonym addr = nat

text \<open>The exceptions the module can raise, each with its argument.\<close>

datatype error =
    ValueError string
  | KeyError string

text \<open>
  The four calls to the module's logger, in the order of the source lines 28, 30, 50
  and 61, each with the argument that Python would format into the record.
\<close>

datatype log_event =
    Debug_validating
  | Error_invalid_schema pydict
  | Debug_simulating pyval
  | Info_generated pydict

record state =
  store :: "addr \<Rightarrow> pydict"
  next_addr :: addr
  log_records :: "log_event list"

definition logger :: "log_event \<Rightarrow> state \<Rightarrow> state" where
  "logger ev s = s\<lparr>log_records := log_records s @ [ev]\<rparr>"

text \<open>Evaluating a dictionary display allocates a new object.\<close>

definition new_dict :: "pydict \<Rightarrow> state \<Rightarrow> addr \<times> state" where
  "new_dict d s =
     (next_addr s, s\<lparr>store := (store s)(next_addr s := d), next_addr := Suc (next_addr s)\<rparr>)"

text \<open>\<^verbatim>\<open>d.get(k)\<close> gives \<^verbatim>\<open>None\<close> for a missing key, \<^verbatim>\<open>d[k]\<close> raises \<^verbatim>\<open>KeyError(k)\<close>.\<close>

definition dict_get :: "pydict \<Rightarrow> string \<Rightarrow> pyval" where
  "dict_get d k = (case d k of None \<Rightarrow> VNone | Some v \<Rightarrow> v)"

definition dict_getitem :: "pydict \<Rightarrow> string \<Rightarrow> error + pyval" where
  "dict_getitem d k = (case d k of None \<Rightarrow> Inl (KeyError k) | Some v \<Rightarrow> Inr v)"

text \<open>
  A call either raises or returns a value, and leaves a new state in both cases.
  \<open>then_call\<close> is the sequencing of two statements: an exception raised by the first
  is the outcome of the whole, and the second statement is not run.
\<close>

type_synonym 'a outcome = "state \<times> (error + 'a)"

definition then_call :: "'a outcome \<Rightarrow> ('a \<Rightarrow> state \<Rightarrow> 'b outcome) \<Rightarrow> 'b outcome" where
  "then_call r f = (case r of (s, Inl e) \<Rightarrow> (s, Inl e) | (s, Inr x) \<Rightarrow> f x s)"

section \<open>The processor\<close>

text \<open>
  \<^verbatim>\<open>validate_input_message\<close> (lines 16 to 32). The schema check
  \<^verbatim>\<open>validate_message_schema\<close> is imported from \<^verbatim>\<open>app.utils.validate_data\<close>; it is a
  parameter here, a predicate on the contents of the message.
\<close>

definition validate_input_message ::
    "(pydict \<Rightarrow> bool) \<Rightarrow> addr \<Rightarrow> state \<Rightarrow> addr outcome" where
  "validate_input_message validate_message_schema message s =
     (let s1 = logger Debug_validating s in
      if \<not> validate_message_schema (store s1 message)
      then (logger (Error_invalid_schema (store s1 message)) s1,
            Inl (ValueError ''Invalid message format''))
      else (s1, Inr message))"

text \<open>
  \<^verbatim>\<open>simulate_technical_strategy\<close> (lines 35 to 62). The entries of the dictionary
  display are evaluated from top to bottom, so \<^verbatim>\<open>message["symbol"]\<close> is read before
  \<^verbatim>\<open>message["timestamp"]\<close>, and the new dictionary exists only when both reads
  succeeded.
\<close>

definition simulate_technical_strategy :: "addr \<Rightarrow> state \<Rightarrow> addr outcome" where
  "simulate_technical_strategy message s =
     (let s1 = logger (Debug_simulating (dict_get (store s message) ''symbol'')) s in
      case dict_getitem (store s1 message) ''symbol'' of
        Inl e \<Rightarrow> (s1, Inl e)
      | Inr symbol \<Rightarrow>
          (case dict_getitem (store s1 message) ''timestamp'' of
             Inl e \<Rightarrow> (s1, Inl e)
           | Inr timestamp \<Rightarrow>
               (let (result, s2) =
                      new_dict [''symbol'' \<mapsto> symbol,
                                ''timestamp'' \<mapsto> timestamp,
                                ''strategy'' \<mapsto> VStr ''SMA_Crossover'',
                                ''signal'' \<mapsto> VStr ''buy'',
                                ''confidence'' \<mapsto> VFloat 0.85] s1;
                    s3 = logger (Info_generated (store s2 result)) s2
                in (s3, Inr result))))"

text \<open>\<^verbatim>\<open>process_message\<close> (lines 65 to 78).\<close>

definition process_message :: "(pydict \<Rightarrow> bool) \<Rightarrow> addr \<Rightarrow> state \<Rightarrow> addr outcome" where
  "process_message validate_message_schema message s =
     then_call (validate_input_message validate_message_schema message s)
       (\<lambda>validated. simulate_technical_strategy validated)"

text \<open>
  What the caller observes of an outcome: the exception, or the contents of the
  dictionary that was returned.
\<close>

definition observed :: "addr outcome \<Rightarrow> error + pydict" where
  "observed r = (case r of (s, Inl e) \<Rightarrow> Inl e | (s, Inr a) \<Rightarrow> Inr (store s a))"

text \<open>The result dictionary of lines 53 to 59 for given field values.\<close>

definition signal_result :: "pyval \<Rightarrow> pyval \<Rightarrow> pydict" where
  "signal_result symbol timestamp =
     [''symbol'' \<mapsto> symbol,
      ''timestamp'' \<mapsto> timestamp,
      ''strategy'' \<mapsto> VStr ''SMA_Crossover'',
      ''signal'' \<mapsto> VStr ''buy'',
      ''confidence'' \<mapsto> VFloat 0.85]"

text \<open>
  Modelled from the spec: the body of \<^verbatim>\<open>validate_message_schema\<close> lives in another
  module, \<^verbatim>\<open>app/utils/validate_data.py\<close>. The specification asks of it that a message has at minimum the
  fields \<^verbatim>\<open>symbol\<close> and \<^verbatim>\<open>timestamp\<close>; this is the weakest such check, used as a
  concrete instance of the parameter.
\<close>

definition has_required_fields :: "pydict \<Rightarrow> bool" where
  "has_required_fields d = (d ''symbol'' \<noteq> None \<and> d ''timestamp'' \<noteq> None)"

text \<open>Sample messages and a state that holds them at the addresses 0, 1 and 2.\<close>

definition aapl_message :: pydict where
  "aapl_message =
     [''symbol'' \<mapsto> VStr ''AAPL'', ''timestamp'' \<mapsto> VStr ''2024-01-01T00:00:00Z'']"

definition aapl_message_extra :: pydict where
  "aapl_message_extra =
     [''symbol'' \<mapsto> VStr ''AAPL'', ''timestamp'' \<mapsto> VStr ''2024-01-01T00:00:00Z'',
      ''volume'' \<mapsto> VInt 1200]"

definition no_timestamp_message :: pydict where
  "no_timestamp_message = [''symbol'' \<mapsto> VStr ''AAPL'']"

definition sample_state :: state where
  "sample_state =
     \<lparr>store = (\<lambda>_. Map.empty)(0 := aapl_message, 1 := aapl_message_extra,
                               2 := no_timestamp_message),
      next_addr = 3,
      log_records = []\<rparr>"

section \<open>Basic facts about the store\<close>

lemma store_logger: "store (logger ev s) = store s"
  by (simp add: logger_def)

lemma next_addr_logger: "next_addr (logger ev s) = next_addr s"
  by (simp add: logger_def)

lemma store_validate:
  "store (fst (validate_input_message p a s)) = store s"
  by (simp add: validate_input_message_def Let_def store_logger)

lemma simulate_success:
  assumes "store s a ''symbol'' = Some symb" and "store s a ''timestamp'' = Some tstamp"
  shows "simulate_technical_strategy a s =
           (\<lparr>store = (store s)(next_addr s := signal_result symb tstamp),
             next_addr = Suc (next_addr s),
             log_records = log_records s @
                [Debug_simulating symb, Info_generated (signal_result symb tstamp)]\<rparr>,
            Inr (next_addr s))"
  using assms
  by (simp add: simulate_technical_strategy_def Let_def dict_getitem_def dict_get_def
      logger_def new_dict_def signal_result_def)

lemma simulate_missing_symbol:
  assumes "store s a ''symbol'' = None"
  shows "simulate_technical_strategy a s =
           (logger (Debug_simulating VNone) s, Inl (KeyError ''symbol''))"
  using assms
  by (simp add: simulate_technical_strategy_def Let_def dict_getitem_def dict_get_def
      store_logger)

lemma simulate_missing_timestamp:
  assumes "store s a ''symbol'' = Some symb" and "store s a ''timestamp'' = None"
  shows "simulate_technical_strategy a s =
           (logger (Debug_simulating symb) s, Inl (KeyError ''timestamp''))"
  using assms
  by (simp add: simulate_technical_strategy_def Let_def dict_getitem_def dict_get_def
      store_logger)

text \<open>The three ways a call of the simulator can end.\<close>

lemma simulate_cases:
  obtains
    (no_symbol) "store s a ''symbol'' = None"
      "simulate_technical_strategy a s =
         (logger (Debug_simulating VNone) s, Inl (KeyError ''symbol''))"
  | (no_timestamp) symb where "store s a ''symbol'' = Some symb"
      "store s a ''timestamp'' = None"
      "simulate_technical_strategy a s =
         (logger (Debug_simulating symb) s, Inl (KeyError ''timestamp''))"
  | (success) symb tstamp where "store s a ''symbol'' = Some symb"
      "store s a ''timestamp'' = Some tstamp"
      "simulate_technical_strategy a s =
         (\<lparr>store = (store s)(next_addr s := signal_result symb tstamp),
           next_addr = Suc (next_addr s),
           log_records = log_records s @
              [Debug_simulating symb, Info_generated (signal_result symb tstamp)]\<rparr>,
          Inr (next_addr s))"
proof (cases "store s a ''symbol''")
  case None
  then show ?thesis using no_symbol simulate_missing_symbol by blast
next
  case (Some symb)
  show ?thesis
  proof (cases "store s a ''timestamp''")
    case None
    then show ?thesis using Some no_timestamp simulate_missing_timestamp by blast
  next
    case (Some tstamp)
    then show ?thesis using \<open>store s a ''symbol'' = Some symb\<close> success simulate_success
      by blast
  qed
qed

lemma observed_simulate:
  "observed (simulate_technical_strategy a s) =
     (case store s a ''symbol'' of
        None \<Rightarrow> Inl (KeyError ''symbol'')
      | Some symb \<Rightarrow>
          (case store s a ''timestamp'' of
             None \<Rightarrow> Inl (KeyError ''timestamp'')
           | Some tstamp \<Rightarrow> Inr (signal_result symb tstamp)))"
  by (cases rule: simulate_cases [of s a]) (simp_all add: observed_def)

lemma simulate_keeps_live:
  assumes "b < next_addr s"
  shows "store (fst (simulate_technical_strategy a s)) b = store s b"
  using assms by (cases rule: simulate_cases [of s a]) (simp_all add: store_logger)

lemma process_accepted:
  assumes "p (store s a)"
  shows "process_message p a s = simulate_technical_strategy a (logger Debug_validating s)"
  using assms
  by (simp add: process_message_def validate_input_message_def then_call_def Let_def
      store_logger)

lemma process_rejected:
  assumes "\<not> p (store s a)"
  shows "process_message p a s =
           (logger (Error_invalid_schema (store s a)) (logger Debug_validating s),
            Inl (ValueError ''Invalid message format''))"
  using assms
  by (simp add: process_message_def validate_input_message_def then_call_def Let_def
      store_logger)

lemma observed_process:
  "observed (process_message p a s) =
     (if p (store s a) then observed (simulate_technical_strategy a (logger Debug_validating s))
      else Inl (ValueError ''Invalid message format''))"
  by (simp add: process_accepted process_rejected observed_def)

lemma process_keeps_live:
  assumes "b < next_addr s"
  shows "store (fst (process_message p a s)) b = store s b"
proof (cases "p (store s a)")
  case True
  from assms have "b < next_addr (logger Debug_validating s)"
    by (simp add: next_addr_logger)
  then show ?thesis
    using True by (simp add: process_accepted simulate_keeps_live store_logger)
next
  case False
  then show ?thesis by (simp add: process_rejected store_logger)
qed

lemma snd_simulate_logger:
  "snd (simulate_technical_strategy a (logger ev s)) = snd (simulate_technical_strategy a s)"
proof (cases rule: simulate_cases [of s a])
  case no_symbol
  then show ?thesis by (simp add: simulate_missing_symbol store_logger)
next
  case (no_timestamp symb)
  then show ?thesis by (simp add: simulate_missing_timestamp store_logger)
next
  case (success symb tstamp)
  then have "store (logger ev s) a ''symbol'' = Some symb"
      and "store (logger ev s) a ''timestamp'' = Some tstamp"
    by (simp_all add: store_logger)
  then have "snd (simulate_technical_strategy a (logger ev s)) = Inr (next_addr (logger ev s))"
    by (simp add: simulate_success)
  with success show ?thesis by (simp add: next_addr_logger)
qed

lemma result_is_live:
  assumes "snd (simulate_technical_strategy a s) = Inr r"
  shows "r < next_addr (fst (simulate_technical_strategy a s))"
  using assms by (cases rule: simulate_cases [of s a]) simp_all

lemma sample_store:
  "store sample_state 0 = aapl_message"
  "store sample_state (Suc 0) = aapl_message_extra"
  "store sample_state 2 = no_timestamp_message"
  "next_addr sample_state = 3"
  by (simp_all add: sample_state_def)

lemma sample_fields:
  "aapl_message ''symbol'' = Some (VStr ''AAPL'')"
  "aapl_message ''timestamp'' = Some (VStr ''2024-01-01T00:00:00Z'')"
  "aapl_message_extra ''symbol'' = Some (VStr ''AAPL'')"
  "aapl_message_extra ''timestamp'' = Some (VStr ''2024-01-01T00:00:00Z'')"
  "aapl_message_extra ''volume'' = Some (VInt 1200)"
  "no_timestamp_message ''symbol'' = Some (VStr ''AAPL'')"
  "no_timestamp_message ''timestamp'' = None"
  by (simp_all add: aapl_message_def aapl_message_extra_def no_timestamp_message_def)

section \<open>The validator\<close>

text \<open>
  C4: when the schema predicate accepts the message, \<open>validate_input_message\<close>
  returns the reference it was given, allocates nothing and leaves every dictionary
  of the store, the message included, as it was: no copy and no change of a key or
  a value.
\<close>

theorem validate_returns_same_mapping:
  assumes "validate_message_schema (store s message)"
  shows "snd (validate_input_message validate_message_schema message s) = Inr message
       \<and> store (fst (validate_input_message validate_message_schema message s)) = store s
       \<and> next_addr (fst (validate_input_message validate_message_schema message s))
           = next_addr s"
  using assms by (simp add: validate_input_message_def Let_def store_logger next_addr_logger)

theorem validate_returns_same_mapping_witness:
  "has_required_fields (store sample_state 0)
   \<and> snd (validate_input_message has_required_fields 0 sample_state) = Inr 0
   \<and> store (fst (validate_input_message has_required_fields 0 sample_state))
       = store sample_state
   \<and> next_addr (fst (validate_input_message has_required_fields 0 sample_state)) = 3"
proof -
  have h: "has_required_fields (store sample_state 0)"
    by (simp add: has_required_fields_def sample_state_def aapl_message_def)
  have n: "next_addr sample_state = 3"
    by (simp add: sample_state_def)
  show ?thesis
    using h n validate_returns_same_mapping [of has_required_fields sample_state 0, OF h]
    by simp
qed


text \<open>
  C2: when the schema predicate rejects the message, \<open>validate_input_message\<close>
  raises \<open>ValueError\<close> (the validation error of the module), and \<open>process_message\<close>
  ends with the very outcome of the validator, error and state alike. In particular,
  if the predicate rejects every mapping that lacks \<open>symbol\<close> or \<open>timestamp\<close>, then
  \<open>process_message\<close> raises that error on every such message.
\<close>

theorem invalid_message_raises:
  "(\<not> validate_message_schema (store s message) \<longrightarrow>
      snd (validate_input_message validate_message_schema message s)
        = Inl (ValueError ''Invalid message format'')
      \<and> process_message validate_message_schema message s
        = validate_input_message validate_message_schema message s)
   \<and> ((\<forall>d. d ''symbol'' = None \<or> d ''timestamp'' = None \<longrightarrow> \<not> validate_message_schema d)
        \<and> (store s message ''symbol'' = None \<or> store s message ''timestamp'' = None) \<longrightarrow>
      snd (validate_input_message validate_message_schema message s)
        = Inl (ValueError ''Invalid message format'')
      \<and> snd (process_message validate_message_schema message s)
        = Inl (ValueError ''Invalid message format''))"
proof -
  have rejected: "snd (validate_input_message validate_message_schema message s)
        = Inl (ValueError ''Invalid message format'')
      \<and> process_message validate_message_schema message s
        = validate_input_message validate_message_schema message s"
    if "\<not> validate_message_schema (store s message)"
    using that
    by (simp add: process_message_def validate_input_message_def then_call_def Let_def
        store_logger)
  then show ?thesis by metis
qed

theorem invalid_message_raises_witness:
  "store sample_state 2 ''timestamp'' = None
   \<and> snd (validate_input_message has_required_fields 2 sample_state)
       = Inl (ValueError ''Invalid message format'')
   \<and> snd (process_message has_required_fields 2 sample_state)
       = Inl (ValueError ''Invalid message format'')
   \<and> process_message has_required_fields 2 sample_state
       = validate_input_message has_required_fields 2 sample_state"
proof -
  have missing: "store sample_state 2 ''timestamp'' = None"
    by (simp add: sample_store sample_fields)
  have strict: "\<forall>d. d ''symbol'' = None \<or> d ''timestamp'' = None \<longrightarrow> \<not> has_required_fields d"
    by (simp add: has_required_fields_def)
  have rejects: "\<not> has_required_fields (store sample_state 2)"
    using missing by (simp add: has_required_fields_def)
  show ?thesis
    using missing strict rejects invalid_message_raises [of has_required_fields sample_state 2]
    by blast
qed

section \<open>The strategy simulator\<close>

text \<open>
  C1: for every message that the schema predicate accepts and whose \<open>symbol\<close> and
  \<open>timestamp\<close> are \<open>AAPL\<close> and \<open>2024-01-01T00:00:00Z\<close>, \<open>process_message\<close> returns
  exactly the dictionary with these two entries, \<open>strategy\<close> \<open>SMA_Crossover\<close>,
  \<open>signal\<close> \<open>buy\<close> and \<open>confidence\<close> 0.85. More generally,
  \<open>simulate_technical_strategy\<close> copies \<open>symbol\<close> and \<open>timestamp\<close> from its input
  as they are and fills the other three fields with those constants.
\<close>

theorem process_returns_fixed_signal:
  "(validate_message_schema (store s message)
      \<and> store s message ''symbol'' = Some (VStr ''AAPL'')
      \<and> store s message ''timestamp'' = Some (VStr ''2024-01-01T00:00:00Z'') \<longrightarrow>
    observed (process_message validate_message_schema message s) =
      Inr [''symbol'' \<mapsto> VStr ''AAPL'',
           ''timestamp'' \<mapsto> VStr ''2024-01-01T00:00:00Z'',
           ''strategy'' \<mapsto> VStr ''SMA_Crossover'',
           ''signal'' \<mapsto> VStr ''buy'',
           ''confidence'' \<mapsto> VFloat 0.85])
   \<and> (store s message ''symbol'' = Some symbol
      \<and> store s message ''timestamp'' = Some timestamp \<longrightarrow>
    observed (simulate_technical_strategy message s) =
      Inr [''symbol'' \<mapsto> symbol,
           ''timestamp'' \<mapsto> timestamp,
           ''strategy'' \<mapsto> VStr ''SMA_Crossover'',
           ''signal'' \<mapsto> VStr ''buy'',
           ''confidence'' \<mapsto> VFloat 0.85])"
  by (simp add: observed_process observed_simulate store_logger signal_result_def)

theorem process_returns_fixed_signal_witness:
  "has_required_fields (store sample_state 0)
   \<and> store sample_state 0 ''symbol'' = Some (VStr ''AAPL'')
   \<and> store sample_state 0 ''timestamp'' = Some (VStr ''2024-01-01T00:00:00Z'')
   \<and> observed (process_message has_required_fields 0 sample_state) =
      Inr [''symbol'' \<mapsto> VStr ''AAPL'',
           ''timestamp'' \<mapsto> VStr ''2024-01-01T00:00:00Z'',
           ''strategy'' \<mapsto> VStr ''SMA_Crossover'',
           ''signal'' \<mapsto> VStr ''buy'',
           ''confidence'' \<mapsto> VFloat 0.85]
   \<and> observed (simulate_technical_strategy 0 sample_state) =
      Inr [''symbol'' \<mapsto> VStr ''AAPL'',
           ''timestamp'' \<mapsto> VStr ''2024-01-01T00:00:00Z'',
           ''strategy'' \<mapsto> VStr ''SMA_Crossover'',
           ''signal'' \<mapsto> VStr ''buy'',
           ''confidence'' \<mapsto> VFloat 0.85]"
proof -
  have fields: "store sample_state 0 ''symbol'' = Some (VStr ''AAPL'')"
      "store sample_state 0 ''timestamp'' = Some (VStr ''2024-01-01T00:00:00Z'')"
    by (simp_all add: sample_store sample_fields)
  have accepted: "has_required_fields (store sample_state 0)"
    using fields by (simp add: has_required_fields_def)
  show ?thesis
    using fields accepted
      process_returns_fixed_signal [of has_required_fields sample_state 0
        "VStr ''AAPL''" "VStr ''2024-01-01T00:00:00Z''"]
    by blast
qed

text \<open>
  C5: on a mapping without the key \<open>symbol\<close>, or with \<open>symbol\<close> but without
  \<open>timestamp\<close>, \<open>simulate_technical_strategy\<close> raises \<open>KeyError\<close> for the first
  missing key and creates no result. Nothing catches the error: when the validator
  lets such a mapping through, \<open>process_message\<close> ends with the very error the
  simulator raises on that message, the same \<open>KeyError\<close> with the same key, and
  its whole outcome is the simulator's. When the schema predicate guarantees both
  fields, \<open>process_message\<close> never ends with a \<open>KeyError\<close>.
\<close>

theorem simulate_missing_field:
  "(store s message ''symbol'' = None \<longrightarrow>
      snd (simulate_technical_strategy message s) = Inl (KeyError ''symbol''))
   \<and> (store s message ''symbol'' \<noteq> None \<and> store s message ''timestamp'' = None \<longrightarrow>
      snd (simulate_technical_strategy message s) = Inl (KeyError ''timestamp''))
   \<and> (validate_message_schema (store s message)
        \<and> (store s message ''symbol'' = None \<or> store s message ''timestamp'' = None) \<longrightarrow>
      snd (process_message validate_message_schema message s)
        = snd (simulate_technical_strategy message s)
      \<and> process_message validate_message_schema message s
        = simulate_technical_strategy message (logger Debug_validating s)
      \<and> snd (process_message validate_message_schema message s)
        = Inl (KeyError (if store s message ''symbol'' = None
                         then ''symbol'' else ''timestamp''))
      \<and> store (fst (process_message validate_message_schema message s)) = store s
      \<and> next_addr (fst (process_message validate_message_schema message s)) = next_addr s)
   \<and> ((\<forall>d. validate_message_schema d \<longrightarrow> d ''symbol'' \<noteq> None \<and> d ''timestamp'' \<noteq> None) \<longrightarrow>
      (\<forall>k. snd (process_message validate_message_schema message s) \<noteq> Inl (KeyError k)))"
proof (intro conjI impI)
  assume "store s message ''symbol'' = None"
  then show "snd (simulate_technical_strategy message s) = Inl (KeyError ''symbol'')"
    by (simp add: simulate_missing_symbol)
next
  assume "store s message ''symbol'' \<noteq> None \<and> store s message ''timestamp'' = None"
  then show "snd (simulate_technical_strategy message s) = Inl (KeyError ''timestamp'')"
    by (auto simp: simulate_missing_timestamp)
next
  let ?s1 = "logger Debug_validating s"
  assume h: "validate_message_schema (store s message)
    \<and> (store s message ''symbol'' = None \<or> store s message ''timestamp'' = None)"
  then show run: "process_message validate_message_schema message s
      = simulate_technical_strategy message ?s1"
    by (simp add: process_accepted)
  then show same: "snd (process_message validate_message_schema message s)
      = snd (simulate_technical_strategy message s)"
    by (simp add: snd_simulate_logger)
  from h have missing:
    "store ?s1 message ''symbol'' = None \<or> store ?s1 message ''timestamp'' = None"
    by (simp add: store_logger)
  have key: "snd (simulate_technical_strategy message s)
      = Inl (KeyError (if store s message ''symbol'' = None
                       then ''symbol'' else ''timestamp''))"
    using h by (cases rule: simulate_cases [of s message]) auto
  with same show "snd (process_message validate_message_schema message s)
      = Inl (KeyError (if store s message ''symbol'' = None
                       then ''symbol'' else ''timestamp''))"
    by simp
  from missing
  have frame: "store (fst (simulate_technical_strategy message ?s1)) = store ?s1
      \<and> next_addr (fst (simulate_technical_strategy message ?s1)) = next_addr ?s1"
    by (cases rule: simulate_cases [of ?s1 message])
       (auto simp: store_logger next_addr_logger)
  with run show "store (fst (process_message validate_message_schema message s)) = store s"
    by (simp add: store_logger)
  from frame run
  show "next_addr (fst (process_message validate_message_schema message s)) = next_addr s"
    by (simp add: next_addr_logger)
next
  let ?s1 = "logger Debug_validating s"
  assume guard: "\<forall>d. validate_message_schema d \<longrightarrow> d ''symbol'' \<noteq> None \<and> d ''timestamp'' \<noteq> None"
  show "\<forall>k. snd (process_message validate_message_schema message s) \<noteq> Inl (KeyError k)"
  proof (cases "validate_message_schema (store s message)")
    case True
    with guard have "store ?s1 message ''symbol'' \<noteq> None"
        and "store ?s1 message ''timestamp'' \<noteq> None"
      by (simp_all add: store_logger)
    then have "\<forall>k. snd (simulate_technical_strategy message ?s1) \<noteq> Inl (KeyError k)"
      by (cases rule: simulate_cases [of ?s1 message]) auto
    with True show ?thesis by (simp add: process_accepted)
  next
    case False
    then show ?thesis by (simp add: process_rejected)
  qed
qed

theorem simulate_missing_field_witness:
  "snd (simulate_technical_strategy 2 sample_state) = Inl (KeyError ''timestamp'')
   \<and> snd (simulate_technical_strategy 2 (sample_state\<lparr>store := \<lambda>_. Map.empty\<rparr>))
       = Inl (KeyError ''symbol'')
   \<and> snd (process_message (\<lambda>d. True) 2 sample_state)
       = snd (simulate_technical_strategy 2 sample_state)
   \<and> snd (process_message (\<lambda>d. True) 2 sample_state) = Inl (KeyError ''timestamp'')
   \<and> store (fst (process_message (\<lambda>d. True) 2 sample_state)) = store sample_state
   \<and> snd (process_message has_required_fields 2 sample_state) \<noteq> Inl (KeyError ''timestamp'')"
proof -
  have present: "store sample_state 2 ''symbol'' \<noteq> None"
    and missing: "store sample_state 2 ''timestamp'' = None"
    by (simp_all add: sample_store sample_fields)
  have first: "snd (simulate_technical_strategy 2 sample_state) = Inl (KeyError ''timestamp'')"
    using present missing simulate_missing_field [of sample_state 2] by blast
  have second: "snd (simulate_technical_strategy 2 (sample_state\<lparr>store := \<lambda>_. Map.empty\<rparr>))
       = Inl (KeyError ''symbol'')"
    using simulate_missing_field [of "sample_state\<lparr>store := \<lambda>_. Map.empty\<rparr>" 2] by simp
  have third: "snd (process_message (\<lambda>d. True) 2 sample_state)
        = snd (simulate_technical_strategy 2 sample_state)"
      "store (fst (process_message (\<lambda>d. True) 2 sample_state)) = store sample_state"
    using missing simulate_missing_field [of sample_state 2 "\<lambda>d. True"] by blast+
  have "\<forall>d. has_required_fields d \<longrightarrow> d ''symbol'' \<noteq> None \<and> d ''timestamp'' \<noteq> None"
    by (simp add: has_required_fields_def)
  then have fourth:
    "snd (process_message has_required_fields 2 sample_state) \<noteq> Inl (KeyError ''timestamp'')"
    using simulate_missing_field [of sample_state 2 has_required_fields] by blast
  from first second third fourth show ?thesis by simp
qed

text \<open>
  C6: for every message that has \<open>symbol\<close> and \<open>timestamp\<close>, whatever other keys it
  carries, \<open>simulate_technical_strategy\<close> returns a dictionary whose keys are exactly
  \<open>symbol\<close>, \<open>timestamp\<close>, \<open>strategy\<close>, \<open>signal\<close> and \<open>confidence\<close>.
\<close>

theorem simulate_result_keys:
  assumes "store s message ''symbol'' \<noteq> None" and "store s message ''timestamp'' \<noteq> None"
  shows "\<exists>d. observed (simulate_technical_strategy message s) = Inr d
           \<and> dom d = {''symbol'', ''timestamp'', ''strategy'', ''signal'', ''confidence''}"
  using assms by (auto simp: observed_simulate signal_result_def)

theorem simulate_result_keys_witness:
  "store sample_state 1 ''volume'' = Some (VInt 1200)
   \<and> (\<exists>d. observed (simulate_technical_strategy 1 sample_state) = Inr d
         \<and> dom d = {''symbol'', ''timestamp'', ''strategy'', ''signal'', ''confidence''}
         \<and> d ''volume'' = None)"
proof -
  have fields: "store sample_state 1 ''symbol'' \<noteq> None"
      "store sample_state 1 ''timestamp'' \<noteq> None"
    and extra: "store sample_state 1 ''volume'' = Some (VInt 1200)"
    by (simp_all add: sample_store sample_fields)
  from simulate_result_keys [OF fields]
  obtain d where d: "observed (simulate_technical_strategy 1 sample_state) = Inr d"
      "dom d = {''symbol'', ''timestamp'', ''strategy'', ''signal'', ''confidence''}"
    by blast
  from d(2) have "''volume'' \<notin> dom d" by simp
  then have "d ''volume'' = None" by blast
  with d extra show ?thesis by blast
qed

text \<open>
  C7: \<open>simulate_technical_strategy\<close> does not change its input: after the call the
  message holds the keys and values it held before. The same is true of every other
  live dictionary, and of the calls that end with an error.
\<close>

theorem simulate_keeps_input:
  assumes "message < next_addr s"
  shows "store (fst (simulate_technical_strategy message s)) message = store s message
       \<and> (\<forall>b. b < next_addr s \<longrightarrow>
            store (fst (simulate_technical_strategy message s)) b = store s b)"
  using assms by (simp add: simulate_keeps_live)

theorem simulate_keeps_input_witness:
  "(1::nat) < next_addr sample_state
   \<and> store (fst (simulate_technical_strategy 1 sample_state)) 1 = aapl_message_extra
   \<and> store (fst (simulate_technical_strategy 1 sample_state)) 0 = aapl_message"
proof -
  have live: "1 < next_addr sample_state"
    by (simp add: sample_store)
  show ?thesis
    using live simulate_keeps_input [OF live] by (simp add: sample_store)
qed

text \<open>
  C9: the result of \<open>simulate_technical_strategy\<close> depends on the values of
  \<open>symbol\<close> and \<open>timestamp\<close> only. Two messages that both have the two keys and agree
  on their values give equal results, in whatever state each call is made.
\<close>

theorem simulate_noninterference:
  assumes "store s1 m1 ''symbol'' \<noteq> None" and "store s1 m1 ''timestamp'' \<noteq> None"
    and "store s2 m2 ''symbol'' = store s1 m1 ''symbol''"
    and "store s2 m2 ''timestamp'' = store s1 m1 ''timestamp''"
  shows "observed (simulate_technical_strategy m2 s2)
       = observed (simulate_technical_strategy m1 s1)"
  using assms by (simp add: observed_simulate split: option.splits)

theorem simulate_noninterference_witness:
  "store sample_state 0 \<noteq> store sample_state 1
   \<and> observed (simulate_technical_strategy 1 sample_state)
       = observed (simulate_technical_strategy 0 sample_state)"
proof -
  have fields: "store sample_state 0 ''symbol'' \<noteq> None"
      "store sample_state 0 ''timestamp'' \<noteq> None"
    and agree: "store sample_state 1 ''symbol'' = store sample_state 0 ''symbol''"
      "store sample_state 1 ''timestamp'' = store sample_state 0 ''timestamp''"
    by (simp_all add: sample_store sample_fields)
  have "store sample_state 0 ''volume'' \<noteq> store sample_state 1 ''volume''"
    by (simp add: sample_store aapl_message_def aapl_message_extra_def)
  then have differ: "store sample_state 0 \<noteq> store sample_state 1"
    by metis
  show ?thesis
    using differ simulate_noninterference [OF fields agree] by simp
qed

section \<open>The pipeline\<close>

text \<open>
  C3: \<open>process_message\<close> is the validator followed by the simulator. When the
  validator returns, the simulator is run once on what it returned, in the state it
  left, and the simulator's outcome is the outcome of \<open>process_message\<close>; when the
  validator raises, its error and state are the outcome, and the simulator is not
  run. There is no other branch.
\<close>

theorem process_is_validate_then_simulate:
  "process_message validate_message_schema message s =
     (case validate_input_message validate_message_schema message s of
        (s1, Inl e) \<Rightarrow> (s1, Inl e)
      | (s1, Inr validated) \<Rightarrow> simulate_technical_strategy validated s1)
   \<and> (validate_message_schema (store s message) \<longrightarrow>
        validate_input_message validate_message_schema message s
          = (logger Debug_validating s, Inr message)
        \<and> process_message validate_message_schema message s
          = simulate_technical_strategy message (logger Debug_validating s))
   \<and> (\<not> validate_message_schema (store s message) \<longrightarrow>
        snd (validate_input_message validate_message_schema message s)
          = Inl (ValueError ''Invalid message format'')
        \<and> process_message validate_message_schema message s
          = validate_input_message validate_message_schema message s
        \<and> log_records (fst (process_message validate_message_schema message s))
          = log_records s @ [Debug_validating, Error_invalid_schema (store s message)])"
  by (simp add: process_message_def then_call_def validate_input_message_def Let_def
      logger_def)

theorem process_is_validate_then_simulate_witness:
  "has_required_fields (store sample_state 0)
   \<and> process_message has_required_fields 0 sample_state
       = simulate_technical_strategy 0 (logger Debug_validating sample_state)
   \<and> \<not> has_required_fields (store sample_state 2)
   \<and> process_message has_required_fields 2 sample_state
       = validate_input_message has_required_fields 2 sample_state
   \<and> log_records (fst (process_message has_required_fields 2 sample_state))
       = [Debug_validating, Error_invalid_schema no_timestamp_message]"
proof -
  have accepted: "has_required_fields (store sample_state 0)"
    by (simp add: has_required_fields_def sample_store sample_fields)
  have rejected: "\<not> has_required_fields (store sample_state 2)"
    by (simp add: has_required_fields_def sample_store sample_fields)
  have empty_log: "log_records sample_state = []"
    by (simp add: sample_state_def)
  have first: "process_message has_required_fields 0 sample_state
      = simulate_technical_strategy 0 (logger Debug_validating sample_state)"
    using accepted process_is_validate_then_simulate [of has_required_fields 0 sample_state]
    by blast
  have second: "process_message has_required_fields 2 sample_state
      = validate_input_message has_required_fields 2 sample_state"
    and "log_records (fst (process_message has_required_fields 2 sample_state))
      = log_records sample_state
          @ [Debug_validating, Error_invalid_schema (store sample_state 2)]"
    using rejected process_is_validate_then_simulate [of has_required_fields 2 sample_state]
    by blast+
  then have third: "log_records (fst (process_message has_required_fields 2 sample_state))
      = [Debug_validating, Error_invalid_schema no_timestamp_message]"
    by (simp add: empty_log sample_store)
  from accepted rejected first second third show ?thesis
    by blast
qed

text \<open>
  C10: the pipeline does not change its argument. \<open>validate_input_message\<close> leaves
  the whole store as it was, whether it returns or raises; \<open>process_message\<close> leaves
  the message and every other live dictionary as they were; and when
  \<open>process_message\<close> ends with the validation error, the store is exactly the one
  before the call and nothing was allocated.
\<close>

theorem process_keeps_input:
  assumes "message < next_addr s"
  shows "store (fst (validate_input_message validate_message_schema message s)) = store s
       \<and> store (fst (process_message validate_message_schema message s)) message
           = store s message
       \<and> (\<forall>b. b < next_addr s \<longrightarrow>
            store (fst (process_message validate_message_schema message s)) b = store s b)
       \<and> (\<not> validate_message_schema (store s message) \<longrightarrow>
            snd (process_message validate_message_schema message s)
              = Inl (ValueError ''Invalid message format'')
            \<and> store (fst (process_message validate_message_schema message s)) = store s
            \<and> next_addr (fst (process_message validate_message_schema message s))
                = next_addr s)"
proof (intro conjI allI impI)
  show "store (fst (validate_input_message validate_message_schema message s)) = store s"
    by (rule store_validate)
  show "store (fst (process_message validate_message_schema message s)) message
      = store s message"
    using assms by (rule process_keeps_live)
  show "store (fst (process_message validate_message_schema message s)) b = store s b"
    if "b < next_addr s" for b
    using that by (rule process_keeps_live)
next
  assume rejected: "\<not> validate_message_schema (store s message)"
  then show "snd (process_message validate_message_schema message s)
      = Inl (ValueError ''Invalid message format'')"
    by (simp add: process_rejected)
  from rejected
  show "store (fst (process_message validate_message_schema message s)) = store s"
    by (simp add: process_rejected store_logger)
  from rejected
  show "next_addr (fst (process_message validate_message_schema message s)) = next_addr s"
    by (simp add: process_rejected next_addr_logger)
qed

theorem process_keeps_input_witness:
  "(2::nat) < next_addr sample_state
   \<and> \<not> has_required_fields (store sample_state 2)
   \<and> store (fst (validate_input_message has_required_fields 2 sample_state))
       = store sample_state
   \<and> store (fst (process_message has_required_fields 2 sample_state)) = store sample_state
   \<and> next_addr (fst (process_message has_required_fields 2 sample_state)) = 3
   \<and> store (fst (process_message has_required_fields 0 sample_state)) 0 = aapl_message"
proof -
  have live: "2 < next_addr sample_state" "0 < next_addr sample_state"
    by (simp_all add: sample_store)
  have rejected: "\<not> has_required_fields (store sample_state 2)"
    by (simp add: has_required_fields_def sample_store sample_fields)
  show ?thesis
    using live rejected
      process_keeps_input [OF live(1), of has_required_fields]
      process_keeps_input [OF live(2), of has_required_fields]
    by (simp add: sample_store)
qed

text \<open>
  C8: for a message that the schema predicate accepts, a second call of
  \<open>process_message\<close> on the same message, made in the state the first call left,
  gives the same output as the first, and the dictionary the first call returned is
  still what it was. No state enters the result: in any state, a message with the
  same contents gives the same output.
\<close>

theorem process_twice_same_output:
  assumes "message < next_addr s"
    and "validate_message_schema (store s message)"
  shows "observed (process_message validate_message_schema message
                     (fst (process_message validate_message_schema message s)))
           = observed (process_message validate_message_schema message s)
       \<and> (\<forall>r. snd (process_message validate_message_schema message s) = Inr r \<longrightarrow>
            store (fst (process_message validate_message_schema message
                          (fst (process_message validate_message_schema message s)))) r
              = store (fst (process_message validate_message_schema message s)) r)
       \<and> (\<forall>s' message'. store s' message' = store s message \<longrightarrow>
            observed (process_message validate_message_schema message' s')
              = observed (process_message validate_message_schema message s))"
proof (intro conjI allI impI)
  let ?first = "process_message validate_message_schema message s"
  have same: "store (fst ?first) message = store s message"
    using assms(1) by (rule process_keeps_live)
  have pure: "observed (process_message validate_message_schema a' s')
      = observed (process_message validate_message_schema message s)"
    if "store s' a' = store s message" for s' a'
    using that
    by (simp add: observed_process observed_simulate store_logger split: option.splits)
  show "observed (process_message validate_message_schema message (fst ?first))
      = observed ?first"
    using same by (rule pure)
  show "observed (process_message validate_message_schema message' s') = observed ?first"
    if "store s' message' = store s message" for s' message'
    using that by (rule pure)
  show "store (fst (process_message validate_message_schema message (fst ?first))) r
      = store (fst ?first) r"
    if "snd ?first = Inr r" for r
  proof -
    from assms(2) have run: "?first
        = simulate_technical_strategy message (logger Debug_validating s)"
      by (rule process_accepted)
    with that have "r < next_addr (fst ?first)"
      using result_is_live [of message "logger Debug_validating s" r] by simp
    then show ?thesis by (rule process_keeps_live)
  qed
qed

theorem process_twice_same_output_witness:
  "(0::nat) < next_addr sample_state
   \<and> has_required_fields (store sample_state 0)
   \<and> observed (process_message has_required_fields 0
                 (fst (process_message has_required_fields 0 sample_state)))
       = observed (process_message has_required_fields 0 sample_state)
   \<and> observed (process_message has_required_fields 0 sample_state)
       = Inr (signal_result (VStr ''AAPL'') (VStr ''2024-01-01T00:00:00Z''))"
proof -
  have live: "0 < next_addr sample_state"
    by (simp add: sample_store)
  have accepted: "has_required_fields (store sample_state 0)"
    by (simp add: has_required_fields_def sample_store sample_fields)
  have result: "observed (process_message has_required_fields 0 sample_state)
      = Inr (signal_result (VStr ''AAPL'') (VStr ''2024-01-01T00:00:00Z''))"
    using accepted
    by (simp add: observed_process observed_simulate store_logger sample_store sample_fields)
  show ?thesis
    using live accepted result process_twice_same_output [of 0 sample_state has_required_fields, OF live accepted]
    by blast
qed

end
